theory Spec2Isabelle
  imports Complex_Main "HOL-Library.Word"
begin

section \<open>JavaScript values used by the two classes\<close>

text \<open>
  Particle counts, batch sizes and child indices are integers; an argument that the caller
  may leave out is an \<open>option\<close>, \<open>None\<close> being \<open>undefined\<close>.  The expression
  \<open>x || 15000\<close> takes the default for every falsy \<open>x\<close>, that is for \<open>undefined\<close>
  and for \<open>0\<close>.
\<close>

definition or_default :: "int option \<Rightarrow> int \<Rightarrow> int" where
  "or_default x d = (case x of None \<Rightarrow> d | Some v \<Rightarrow> if v = 0 then d else v)"

text \<open>
  The values an entry of the \<open>properties\<close> object can hold, and \<open>!!v\<close>.
\<close>

datatype jsval =
    JUndefined
  | JNull
  | JBool bool
  | JNumber real
  | JNaN
  | JString string
  | JObject

fun truthy :: "jsval \<Rightarrow> bool" where
  "truthy JUndefined = False"
| "truthy JNull = False"
| "truthy (JBool b) = b"
| "truthy (JNumber x) = (x \<noteq> 0)"
| "truthy JNaN = False"
| "truthy (JString s) = (s \<noteq> [])"
| "truthy JObject = True"

type_synonym props = "string \<rightharpoonup> jsval"

datatype js_error = TypeError

section \<open>ParticleContainer\<close>

text \<open>
  A child of the container is a sprite; the container reads \<open>_texture.baseTexture\<close> of
  its first child, a reference to the image source shared by the batch.
\<close>

record sprite =
  texture_baseTexture :: nat

text \<open>
  The fields the class inherits from the scene graph's container and reads in
  \<open>renderWebGL\<close>.  The superclass constructor is outside the source, so the object that
  \<open>super()\<close> leaves is a parameter of the constructor below.
\<close>

record display_object =
  visible :: bool
  worldAlpha :: real
  renderable :: bool
  children :: "sprite list"

datatype blend_mode = NORMAL

text \<open>
  The fields of the class itself.  \<open>properties\<close> is \<open>_properties\<close>, \<open>None\<close> once
  \<open>destroy\<close> has set it to \<open>null\<close>; \<open>glBuffers\<close> is \<open>_glBuffers\<close>, the handles of the
  buffer groups; \<open>buffers\<close> is \<open>_buffers\<close>, a field the constructor never assigns
  (\<open>None\<close> is \<open>undefined\<close> or \<open>null\<close>); \<open>baseTexture\<close> is a reference or \<open>null\<close>.
\<close>

record container = display_object +
  properties :: "bool list option"
  maxSize :: int
  batchSize :: int
  glBuffers :: "nat list"
  bufferToUpdate :: int
  interactiveChildren :: bool
  blendMode :: blend_mode
  roundPixels :: bool
  baseTexture :: "nat option"
  buffers :: "nat list option"

text \<open>
  \<open>setProperties\<close>: each of the five assignments reads the key with \<open>in\<close> and coerces
  the value with \<open>!!\<close>.  Writing to \<open>this._properties[0]\<close> raises a \<open>TypeError\<close> when
  \<open>_properties\<close> is \<open>null\<close>.
\<close>

definition flag_of :: "props \<Rightarrow> string \<Rightarrow> bool \<Rightarrow> bool" where
  "flag_of p key old = (case p key of Some v \<Rightarrow> truthy v | None \<Rightarrow> old)"

definition setProperties :: "container \<Rightarrow> props option \<Rightarrow> js_error + container" where
  "setProperties c arg =
     (case arg of
        None \<Rightarrow> Inr c
      | Some p \<Rightarrow>
          (case properties c of
             None \<Rightarrow> Inl TypeError
           | Some f0 \<Rightarrow>
               let f1 = f0[0 := flag_of p ''scale'' (f0 ! 0)];
                   f2 = f1[1 := flag_of p ''position'' (f1 ! 1)];
                   f3 = f2[2 := flag_of p ''rotation'' (f2 ! 2)];
                   f4 = f3[3 := flag_of p ''uvs'' (f3 ! 3)];
                   f5 = f4[4 := flag_of p ''alpha'' (f4 ! 4)]
               in Inr (c\<lparr>properties := Some f5\<rparr>)))"

text \<open>
  The constructor.  \<open>base\<close> is the object as \<open>super()\<close> leaves it.
\<close>

definition ParticleContainer ::
  "display_object \<Rightarrow> int option \<Rightarrow> props option \<Rightarrow> int option \<Rightarrow> js_error + container" where
  "ParticleContainer base maxSize_arg properties_arg batchSize_arg =
     (let batchSize0 = or_default batchSize_arg 15000;
          maxSize1 = or_default maxSize_arg 15000;
          maxBatchSize = 16384;
          batchSize1 = (if batchSize0 > maxBatchSize then maxBatchSize else batchSize0);
          batchSize2 = (if batchSize1 > maxSize1 then maxSize1 else batchSize1)
      in setProperties
           \<lparr> visible = visible base,
             worldAlpha = worldAlpha base,
             renderable = renderable base,
             children = children base,
             properties = Some [False, True, False, False, False],
             maxSize = maxSize1,
             batchSize = batchSize2,
             glBuffers = [],
             bufferToUpdate = 0,
             interactiveChildren = False,
             blendMode = NORMAL,
             roundPixels = True,
             baseTexture = None,
             buffers = None \<rparr>
           properties_arg)"

text \<open>
  \<open>onChildrenChange\<close>.  \<open>Math.floor(k / b)\<close> on integers is \<open>div\<close>, which rounds
  towards minus infinity.  For \<open>b = 0\<close> the quotient of a child index is \<open>Infinity\<close> or
  \<open>NaN\<close>, the comparison is false and nothing is assigned.
\<close>

definition onChildrenChange :: "container \<Rightarrow> nat \<Rightarrow> container" where
  "onChildrenChange c smallestChildIndex =
     (if batchSize c = 0 then c
      else
        let bufferIndex = int smallestChildIndex div batchSize c
        in if bufferIndex < bufferToUpdate c then c\<lparr>bufferToUpdate := bufferIndex\<rparr> else c)"

text \<open>
  \<open>destroy\<close>.  The superclass's \<open>destroy\<close> is outside the source and works on the
  inherited fields: it is the parameter \<open>super_destroy\<close>.  A buffer group is a handle, and
  the second component of the result lists, in order, the handles on which \<open>destroy()\<close>
  has been called.  The loop runs over \<open>_buffers\<close>.
\<close>

definition destroy ::
  "(container \<Rightarrow> container) \<Rightarrow> container \<Rightarrow> nat list \<Rightarrow> container \<times> nat list" where
  "destroy super_destroy c released =
     (let c1 = super_destroy c;
          released1 =
            (case buffers c1 of
               None \<Rightarrow> released
             | Some bs \<Rightarrow> fold (\<lambda>b log. log @ [b]) bs released)
      in (c1\<lparr>properties := None, buffers := None\<rparr>, released1))"

subsection \<open>Rendering with the WebGL renderer\<close>

text \<open>
  The function registered by \<open>renderWebGL\<close> is \<open>function(){ this.onChildrenChange(0); }\<close>
  bound to the container: a closure is the index it passes.
\<close>

datatype callback = CallOnChildrenChange nat

text \<open>
  An image source: its loaded flag, and the listeners that \<open>once('update', ...)\<close> has
  registered and that have not fired yet.
\<close>

record base_texture =
  hasLoaded :: bool
  once_update :: "callback list"

datatype renderer_call = SetObjectRenderer_particle | Particle_render

text \<open>
  What a render call works on: the container, the image sources by reference, and the
  calls made on the renderer, which is outside the source.
\<close>

record scene =
  the_container :: container
  baseTextures :: "nat \<Rightarrow> base_texture"
  renderer_calls :: "renderer_call list"

text \<open>
  Modelled from the spec: the event emitter of the image source is not in the source.
  \<open>once\<close> registers a one-shot listener; \<open>emit_update\<close> is the image source's load
  notification, which runs each pending listener once and drops it.
\<close>

definition once :: "scene \<Rightarrow> nat \<Rightarrow> callback \<Rightarrow> scene" where
  "once s b f =
     s\<lparr>baseTextures := (baseTextures s)
          (b := (baseTextures s b)\<lparr>once_update := once_update (baseTextures s b) @ [f]\<rparr>)\<rparr>"

fun run_callback :: "callback \<Rightarrow> scene \<Rightarrow> scene" where
  "run_callback (CallOnChildrenChange k) s =
     s\<lparr>the_container := onChildrenChange (the_container s) k\<rparr>"

definition emit_update :: "scene \<Rightarrow> nat \<Rightarrow> scene" where
  "emit_update s b =
     (let pending = once_update (baseTextures s b);
          s1 = s\<lparr>baseTextures := (baseTextures s)(b := (baseTextures s b)\<lparr>once_update := []\<rparr>)\<rparr>
      in fold run_callback pending s1)"

definition renderWebGL :: "scene \<Rightarrow> scene" where
  "renderWebGL s =
     (let c = the_container s
      in if \<not> visible c \<or> worldAlpha c \<le> 0 \<or> length (children c) = 0 \<or> \<not> renderable c
         then s
         else
           let s1 =
                 (if baseTexture c = None
                  then
                    let b = texture_baseTexture (children c ! 0);
                        s0 = s\<lparr>the_container := c\<lparr>baseTexture := Some b\<rparr>\<rparr>
                    in if \<not> hasLoaded (baseTextures s0 b)
                       then once s0 b (CallOnChildrenChange 0)
                       else s0
                  else s)
           in s1\<lparr>renderer_calls :=
                   renderer_calls s1 @ [SetObjectRenderer_particle, Particle_render]\<rparr>)"

section \<open>Rope\<close>

subsection \<open>JavaScript numbers\<close>

text \<open>
  A JavaScript number is a binary64 floating-point value: a finite real, an infinity or
  \<open>NaN\<close>.  The two zeros are one value here: they compare equal, and the only operation
  that tells them apart is a division by zero.  The divisors of \<open>refresh\<close> and
  \<open>updateTransform\<close> are an array length minus one, the square root of a sum of squares
  and the constant 2; a zero among them is the positive zero, so a quotient by zero takes
  the sign of its dividend.
\<close>

datatype number = Num real | PosInf | NegInf | NaN

text \<open>
  Rounding to the nearest value of a binary format with \<open>p\<close> significant bits and largest
  exponent \<open>emax\<close>, ties to the even significand: the spacing \<open>u\<close> of the format around
  \<open>x\<close> is \<open>2\<close> to the exponent of \<open>x\<close> (at least the smallest normal exponent
  \<open>1 - emax\<close>, which gives the subnormal numbers) minus \<open>p - 1\<close>; \<open>x\<close> goes to the
  nearest multiple of \<open>u\<close>; a result of magnitude \<open>2 ^ (emax + 1)\<close> or more overflows to an
  infinity.
\<close>

definition round_half_even :: "real \<Rightarrow> int" where
  "round_half_even q =
     (let f = \<lfloor>q\<rfloor>; r = q - of_int f
      in if r < 1 / 2 then f
         else if r > 1 / 2 then f + 1
         else if even f then f else f + 1)"

definition round_to :: "nat \<Rightarrow> int \<Rightarrow> real \<Rightarrow> number" where
  "round_to p emax x =
     (if x = 0 then Num 0
      else
        let e = max \<lfloor>log 2 \<bar>x\<bar>\<rfloor> (1 - emax);
            u = 2 powi (e - int p + 1);
            y = of_int (round_half_even (x / u)) * u
        in if \<bar>y\<bar> \<ge> 2 powi (emax + 1) then (if x > 0 then PosInf else NegInf)
           else Num y)"

definition round64 :: "real \<Rightarrow> number" where
  "round64 x = round_to 53 1023 x"

definition round32 :: "real \<Rightarrow> number" where
  "round32 x = round_to 24 127 x"

text \<open>
  The operations of the two methods on numbers: each rounds the exact result to binary64,
  and follows the rules of IEEE 754 for infinities and \<open>NaN\<close>.  \<open>Math.sqrt\<close> is the
  correctly rounded square root.
\<close>

fun negative :: "number \<Rightarrow> bool" where
  "negative (Num x) = (x < 0)"
| "negative NegInf = True"
| "negative PosInf = False"
| "negative NaN = False"

definition inf_of_sign :: "bool \<Rightarrow> number" where
  "inf_of_sign neg = (if neg then NegInf else PosInf)"

fun js_neg :: "number \<Rightarrow> number" where
  "js_neg (Num x) = Num (- x)"
| "js_neg PosInf = NegInf"
| "js_neg NegInf = PosInf"
| "js_neg NaN = NaN"

fun js_add :: "number \<Rightarrow> number \<Rightarrow> number" where
  "js_add NaN b = NaN"
| "js_add a NaN = NaN"
| "js_add (Num x) (Num y) = round64 (x + y)"
| "js_add PosInf NegInf = NaN"
| "js_add NegInf PosInf = NaN"
| "js_add PosInf b = PosInf"
| "js_add a PosInf = PosInf"
| "js_add NegInf b = NegInf"
| "js_add a NegInf = NegInf"

definition js_sub :: "number \<Rightarrow> number \<Rightarrow> number" where
  "js_sub a b = js_add a (js_neg b)"

fun js_mul :: "number \<Rightarrow> number \<Rightarrow> number" where
  "js_mul NaN b = NaN"
| "js_mul a NaN = NaN"
| "js_mul (Num x) (Num y) = round64 (x * y)"
| "js_mul (Num x) b = (if x = 0 then NaN else inf_of_sign ((x < 0) \<noteq> negative b))"
| "js_mul a (Num y) = (if y = 0 then NaN else inf_of_sign (negative a \<noteq> (y < 0)))"
| "js_mul a b = inf_of_sign (negative a \<noteq> negative b)"

fun js_div :: "number \<Rightarrow> number \<Rightarrow> number" where
  "js_div NaN b = NaN"
| "js_div a NaN = NaN"
| "js_div (Num x) (Num y) =
     (if y = 0 then (if x = 0 then NaN else inf_of_sign (x < 0)) else round64 (x / y))"
| "js_div (Num x) b = Num 0"
| "js_div a (Num y) = inf_of_sign (negative a \<noteq> (y < 0))"
| "js_div a b = NaN"

fun js_sqrt :: "number \<Rightarrow> number" where
  "js_sqrt (Num x) = (if x < 0 then NaN else round64 (sqrt x))"
| "js_sqrt PosInf = PosInf"
| "js_sqrt NegInf = NaN"
| "js_sqrt NaN = NaN"

fun js_gt :: "number \<Rightarrow> number \<Rightarrow> bool" where
  "js_gt NaN b = False"
| "js_gt a NaN = False"
| "js_gt (Num x) (Num y) = (x > y)"
| "js_gt PosInf PosInf = False"
| "js_gt PosInf b = True"
| "js_gt a PosInf = False"
| "js_gt NegInf b = False"
| "js_gt a NegInf = True"

text \<open>
  A store into a \<open>Float32Array\<close> rounds the number to binary32.
\<close>

fun to_float32 :: "number \<Rightarrow> number" where
  "to_float32 (Num x) = round32 x"
| "to_float32 PosInf = PosInf"
| "to_float32 NegInf = NegInf"
| "to_float32 NaN = NaN"

subsection \<open>The objects\<close>

record point =
  px :: number
  py :: number

text \<open>
  The corners of the texture's UV rectangle that \<open>refresh\<close> reads, and the texture:
  \<open>tex_uvs\<close> is \<open>_uvs\<close>, \<open>None\<close> while the rectangle is not resolved.
\<close>

record texture_uvs =
  uv_x0 :: number
  uv_y0 :: number
  uv_x2 :: number
  uv_y2 :: number

record texture =
  tex_uvs :: "texture_uvs option"
  height :: number

text \<open>
  The fields of the mesh superclass that the class uses (\<open>texture\<close> is \<open>_texture\<close>), and
  the fields of the rope.  \<open>vertices\<close>, \<open>uvs\<close> and \<open>colors\<close> are \<open>Float32Array\<close>s:
  their entries are numbers that went through \<open>to_float32\<close>.  \<open>indices\<close> is a
  \<open>Uint16Array\<close>: a write converts the number modulo \<open>2 ^ 16\<close>.  A typed array has a
  fixed length and ignores a write past its end, as \<open>xs[i := v]\<close> does.  Indices and
  lengths of arrays are integers below \<open>2 ^ 53\<close>, on which the arithmetic of numbers is
  exact: \<open>i\<close> and \<open>total - 1\<close> enter a division as \<open>Num (real i)\<close> and
  \<open>Num (real total_n - 1)\<close>.
\<close>

record mesh =
  texture :: texture
  dirty :: bool
  indexDirty :: bool

record rope = mesh +
  points :: "point list"
  vertices :: "number list"
  uvs :: "number list"
  colors :: "number list"
  indices :: "16 word list"
  ready :: bool

subsection \<open>refresh\<close>

type_synonym static_buffers = "number list \<times> number list \<times> 16 word list"

definition refresh_body :: "point \<Rightarrow> point \<Rightarrow> nat \<Rightarrow> nat \<Rightarrow> static_buffers \<Rightarrow> static_buffers" where
  "refresh_body offset factor total_n i bufs =
     (case bufs of (uvs0, colors0, indices0) \<Rightarrow>
        let index = i * 4;
            amount = js_div (Num (real i)) (Num (real total_n - 1));
            uvs1 = uvs0[index := to_float32 (js_add (js_mul amount (px factor)) (px offset))];
            uvs2 = uvs1[index + 1 := to_float32 (js_add (Num 0) (py offset))];
            uvs3 = uvs2[index + 2 := to_float32 (js_add (js_mul amount (px factor)) (px offset))];
            uvs4 = uvs3[index + 3 := to_float32 (js_add (js_mul (Num 1) (py factor)) (py offset))];
            index = i * 2;
            colors1 = colors0[index := to_float32 (Num 1)];
            colors2 = colors1[index + 1 := to_float32 (Num 1)];
            indices1 = indices0[index := of_nat index];
            indices2 = indices1[index + 1 := of_nat (index + 1)]
        in (uvs4, colors2, indices2))"

function refresh_loop :: "point \<Rightarrow> point \<Rightarrow> nat \<Rightarrow> nat \<Rightarrow> static_buffers \<Rightarrow> static_buffers" where
  "refresh_loop offset factor total_n i bufs =
     (if i < total_n
      then refresh_loop offset factor total_n (Suc i) (refresh_body offset factor total_n i bufs)
      else bufs)"
  by pat_completeness auto
termination
  by (relation "measure (\<lambda>(offset, factor, total_n, i, bufs). total_n - i)") auto

definition refresh :: "rope \<Rightarrow> rope" where
  "refresh r =
     (let pts = points r
      in case tex_uvs (texture r) of
           None \<Rightarrow> r
         | Some textureUvs \<Rightarrow>
             if length pts < 1 then r
             else
               let offset = \<lparr>px = uv_x0 textureUvs, py = uv_y0 textureUvs\<rparr>;
                   factor = \<lparr>px = js_sub (uv_x2 textureUvs) (uv_x0 textureUvs),
                             py = js_sub (uv_y2 textureUvs) (uv_y0 textureUvs)\<rparr>;
                   uvs0 = (uvs r)[0 := to_float32 (js_add (Num 0) (px offset)),
                                  1 := to_float32 (js_add (Num 0) (py offset)),
                                  2 := to_float32 (js_add (Num 0) (px offset)),
                                  3 := to_float32 (js_add (js_mul (Num 1) (py factor)) (py offset))];
                   colors0 = (colors r)[0 := to_float32 (Num 1), 1 := to_float32 (Num 1)];
                   indices0 = (indices r)[0 := 0, 1 := 1];
                   total_n = length pts
               in case refresh_loop offset factor total_n 1 (uvs0, colors0, indices0) of
                    (uvs1, colors1, indices1) \<Rightarrow>
                      r\<lparr>uvs := uvs1, colors := colors1, indices := indices1,
                        dirty := True, indexDirty := True\<rparr>)"

text \<open>
  The constructor.  \<open>base\<close> is the mesh as \<open>super(texture)\<close> leaves it; a new typed
  array is filled with zeros.
\<close>

definition Rope :: "mesh \<Rightarrow> point list \<Rightarrow> rope" where
  "Rope base pts =
     refresh
       \<lparr> texture = texture base,
         dirty = dirty base,
         indexDirty = indexDirty base,
         points = pts,
         vertices = replicate (length pts * 4) (Num 0),
         uvs = replicate (length pts * 4) (Num 0),
         colors = replicate (length pts * 2) (Num 0),
         indices = replicate (length pts * 2) 0,
         ready = True \<rparr>"

subsection \<open>updateTransform\<close>

text \<open>
  The variables of \<open>updateTransform\<close> that live across the iterations of its loop.
  \<open>ratio\<close> is declared without a value: \<open>undefined\<close>, which is \<open>NaN\<close> as a number.
\<close>

record transform_vars =
  lastPoint :: point
  perpX :: number
  perpY :: number
  ratio :: number
  verts :: "number list"

definition updateTransform_body ::
  "number \<Rightarrow> point list \<Rightarrow> nat \<Rightarrow> nat \<Rightarrow> transform_vars \<Rightarrow> transform_vars" where
  "updateTransform_body texture_height pts total_n i v =
     (let point = pts ! i;
          index = i * 4;
          nextPoint = (if int i < int (length pts) - 1 then pts ! (i + 1) else point);
          perpY0 = js_neg (js_sub (px nextPoint) (px (lastPoint v)));
          perpX0 = js_sub (py nextPoint) (py (lastPoint v));
          ratio0 = js_mul (js_sub (Num 1) (js_div (Num (real i)) (Num (real total_n - 1))))
                     (Num 10);
          ratio1 = (if js_gt ratio0 (Num 1) then Num 1 else ratio0);
          perpLength = js_sqrt (js_add (js_mul perpX0 perpX0) (js_mul perpY0 perpY0));
          num = js_div texture_height (Num 2);
          perpX1 = js_div perpX0 perpLength;
          perpY1 = js_div perpY0 perpLength;
          perpX2 = js_mul perpX1 num;
          perpY2 = js_mul perpY1 num;
          verts1 = (verts v)[index := to_float32 (js_add (px point) perpX2)];
          verts2 = verts1[index + 1 := to_float32 (js_add (py point) perpY2)];
          verts3 = verts2[index + 2 := to_float32 (js_sub (px point) perpX2)];
          verts4 = verts3[index + 3 := to_float32 (js_sub (py point) perpY2)]
      in \<lparr> lastPoint = point, perpX = perpX2, perpY = perpY2, ratio = ratio1,
           verts = verts4 \<rparr>)"

function updateTransform_loop ::
  "number \<Rightarrow> point list \<Rightarrow> nat \<Rightarrow> nat \<Rightarrow> transform_vars \<Rightarrow> transform_vars" where
  "updateTransform_loop texture_height pts total_n i v =
     (if i < total_n
      then updateTransform_loop texture_height pts total_n (Suc i)
             (updateTransform_body texture_height pts total_n i v)
      else v)"
  by pat_completeness auto
termination
  by (relation "measure (\<lambda>(texture_height, pts, total_n, i, v). total_n - i)") auto

text \<open>
  \<open>updateTransform\<close> ends with the inherited \<open>containerUpdateTransform\<close>, which composes
  the world transform and touches none of the fields above; it is left out.
\<close>

definition updateTransform :: "rope \<Rightarrow> rope" where
  "updateTransform r =
     (let pts = points r
      in if length pts < 1 then r
         else
           let v0 = \<lparr> lastPoint = pts ! 0, perpX = Num 0, perpY = Num 0, ratio = NaN,
                      verts = vertices r \<rparr>;
               total_n = length pts
           in r\<lparr>vertices := verts (updateTransform_loop (height (texture r)) pts total_n 0 v0)\<rparr>)"

text \<open>
  The derivation with the taper ratio taken out: the same loop without the variable
  \<open>ratio\<close> and without the two statements that assign it.
\<close>

record plain_vars =
  plain_lastPoint :: point
  plain_perpX :: number
  plain_perpY :: number
  plain_verts :: "number list"

definition plain_body :: "number \<Rightarrow> point list \<Rightarrow> nat \<Rightarrow> plain_vars \<Rightarrow> plain_vars" where
  "plain_body texture_height pts i v =
     (let point = pts ! i;
          index = i * 4;
          nextPoint = (if int i < int (length pts) - 1 then pts ! (i + 1) else point);
          perpY0 = js_neg (js_sub (px nextPoint) (px (plain_lastPoint v)));
          perpX0 = js_sub (py nextPoint) (py (plain_lastPoint v));
          perpLength = js_sqrt (js_add (js_mul perpX0 perpX0) (js_mul perpY0 perpY0));
          num = js_div texture_height (Num 2);
          perpX1 = js_div perpX0 perpLength;
          perpY1 = js_div perpY0 perpLength;
          perpX2 = js_mul perpX1 num;
          perpY2 = js_mul perpY1 num;
          verts1 = (plain_verts v)[index := to_float32 (js_add (px point) perpX2)];
          verts2 = verts1[index + 1 := to_float32 (js_add (py point) perpY2)];
          verts3 = verts2[index + 2 := to_float32 (js_sub (px point) perpX2)];
          verts4 = verts3[index + 3 := to_float32 (js_sub (py point) perpY2)]
      in \<lparr> plain_lastPoint = point, plain_perpX = perpX2, plain_perpY = perpY2,
           plain_verts = verts4 \<rparr>)"

function plain_loop :: "number \<Rightarrow> point list \<Rightarrow> nat \<Rightarrow> nat \<Rightarrow> plain_vars \<Rightarrow> plain_vars" where
  "plain_loop texture_height pts total_n i v =
     (if i < total_n
      then plain_loop texture_height pts total_n (Suc i) (plain_body texture_height pts i v)
      else v)"
  by pat_completeness auto
termination
  by (relation "measure (\<lambda>(texture_height, pts, total_n, i, v). total_n - i)") auto

definition updateTransform_without_ratio :: "rope \<Rightarrow> rope" where
  "updateTransform_without_ratio r =
     (let pts = points r
      in if length pts < 1 then r
         else
           let v0 = \<lparr> plain_lastPoint = pts ! 0, plain_perpX = Num 0, plain_perpY = Num 0,
                      plain_verts = vertices r \<rparr>;
               total_n = length pts
           in r\<lparr>vertices := plain_verts (plain_loop (height (texture r)) pts total_n 0 v0)\<rparr>)"

subsection \<open>The loop bodies, piece by piece\<close>

text \<open>
  Names for the pieces of the two loop bodies, used to state what an iteration writes:
  the point \<open>updateTransform\<close> takes as \<open>nextPoint\<close> at index \<open>i\<close>; the scaled
  perpendicular it computes from \<open>lastPoint\<close> and \<open>nextPoint\<close>; the four scalars it
  stores for a point and a perpendicular; the longitudinal coordinate \<open>refresh\<close> stores at
  index \<open>i\<close>, the two transverse coordinates, and the offset and the factor it takes from
  the UV rectangle; and the loop variables of \<open>updateTransform\<close> without \<open>ratio\<close>.  The
  lemmas \<open>body_verts\<close>, \<open>refresh_body_eq\<close> and \<open>plain_body_forget\<close> tie them to the
  bodies above.
\<close>

definition nextPoint_at :: "point list \<Rightarrow> nat \<Rightarrow> point" where
  "nextPoint_at pts i = (if int i < int (length pts) - 1 then pts ! (i + 1) else pts ! i)"

definition scaled_perp :: "number \<Rightarrow> point \<Rightarrow> point \<Rightarrow> number \<times> number" where
  "scaled_perp h lastP nextP =
     (let perpY0 = js_neg (js_sub (px nextP) (px lastP));
          perpX0 = js_sub (py nextP) (py lastP);
          perpLength = js_sqrt (js_add (js_mul perpX0 perpX0) (js_mul perpY0 perpY0));
          num = js_div h (Num 2)
      in (js_mul (js_div perpX0 perpLength) num, js_mul (js_div perpY0 perpLength) num))"

definition cross_section :: "point \<Rightarrow> number \<times> number \<Rightarrow> number list" where
  "cross_section p perp =
     [to_float32 (js_add (px p) (fst perp)), to_float32 (js_add (py p) (snd perp)),
      to_float32 (js_sub (px p) (fst perp)), to_float32 (js_sub (py p) (snd perp))]"

definition uv_along :: "point \<Rightarrow> point \<Rightarrow> nat \<Rightarrow> nat \<Rightarrow> number" where
  "uv_along offset factor n i =
     to_float32 (js_add (js_mul (js_div (Num (real i)) (Num (real n - 1))) (px factor)) (px offset))"

definition uv_offset :: "texture_uvs \<Rightarrow> point" where
  "uv_offset t = \<lparr>px = uv_x0 t, py = uv_y0 t\<rparr>"

definition uv_factor :: "texture_uvs \<Rightarrow> point" where
  "uv_factor t = \<lparr>px = js_sub (uv_x2 t) (uv_x0 t), py = js_sub (uv_y2 t) (uv_y0 t)\<rparr>"

definition uv_edge0 :: "point \<Rightarrow> number" where
  "uv_edge0 offset = to_float32 (js_add (Num 0) (py offset))"

definition uv_edge1 :: "point \<Rightarrow> point \<Rightarrow> number" where
  "uv_edge1 offset factor = to_float32 (js_add (js_mul (Num 1) (py factor)) (py offset))"

definition forget_ratio :: "transform_vars \<Rightarrow> plain_vars" where
  "forget_ratio v =
     \<lparr> plain_lastPoint = lastPoint v, plain_perpX = perpX v, plain_perpY = perpY v,
       plain_verts = verts v \<rparr>"

subsection \<open>Sample objects\<close>

text \<open>
  Modelled from the spec: the scene graph's constructors are not in the source.  A new
  container is visible, fully opaque, renderable and has no children; a new mesh holds the
  texture it was given.
\<close>

definition fresh_display :: display_object where
  "fresh_display = \<lparr> visible = True, worldAlpha = 1, renderable = True, children = [] \<rparr>"

definition fresh_mesh :: "texture \<Rightarrow> mesh" where
  "fresh_mesh t = \<lparr> texture = t, dirty = True, indexDirty = True \<rparr>"

definition sample_container :: container where
  "sample_container =
     \<lparr> visible = True, worldAlpha = 1, renderable = True, children = [],
       properties = Some [False, True, False, False, False],
       maxSize = 15000, batchSize = 100, glBuffers = [], bufferToUpdate = 7,
       interactiveChildren = False, blendMode = NORMAL, roundPixels = True,
       baseTexture = None, buffers = None \<rparr>"

definition sample_scene :: scene where
  "sample_scene =
     \<lparr> the_container = sample_container\<lparr>children := [\<lparr>texture_baseTexture = 5\<rparr>]\<rparr>,
       baseTextures = (\<lambda>b. \<lparr>hasLoaded = False, once_update = []\<rparr>),
       renderer_calls = [] \<rparr>"

definition sample_texture :: texture where
  "sample_texture =
     \<lparr> tex_uvs = Some \<lparr>uv_x0 = Num 0, uv_y0 = Num 0, uv_x2 = Num 1, uv_y2 = Num 1\<rparr>,
       height = Num 20 \<rparr>"

definition sample_points :: "point list" where
  "sample_points = [\<lparr>px = Num 0, py = Num 0\<rparr>, \<lparr>px = Num 50, py = Num 0\<rparr>, \<lparr>px = Num 100, py = Num 0\<rparr>]"

definition sample_rope :: rope where
  "sample_rope = Rope (fresh_mesh sample_texture) sample_points"

definition single_point_rope :: rope where
  "single_point_rope = Rope (fresh_mesh sample_texture) [\<lparr>px = Num 3, py = Num 4\<rparr>]"



definition long_rope :: rope where
  "long_rope = Rope (fresh_mesh sample_texture) (replicate 32769 \<lparr>px = Num 0, py = Num 0\<rparr>)"

text \<open>
  The loops are unfolded one iteration at a time, at the index in hand.
\<close>

declare refresh_loop.simps [simp del]
declare updateTransform_loop.simps [simp del]
declare plain_loop.simps [simp del]

section \<open>The constructor's batch size\<close>

lemma setProperties_defined:
  assumes "properties c = Some fl"
  shows "\<exists>fl'. setProperties c arg = Inr (c\<lparr>properties := Some fl'\<rparr>) \<and> length fl' = length fl"
proof (cases arg)
  case None
  have "c\<lparr>properties := Some fl\<rparr> = c" using assms by simp
  then show ?thesis using None by (auto simp: setProperties_def intro!: exI[of _ fl])
next
  case (Some p)
  show ?thesis
    unfolding Some setProperties_def Let_def using assms
    by (simp only: option.case) (rule exI, rule conjI, rule refl, simp)
qed

lemma ParticleContainer_fields:
  "\<exists>c. ParticleContainer base m p b = Inr c
     \<and> batchSize c = min (min (or_default b 15000) 16384) (or_default m 15000)
     \<and> maxSize c = or_default m 15000 \<and> bufferToUpdate c = 0 \<and> glBuffers c = []
     \<and> buffers c = None \<and> baseTexture c = None
     \<and> (\<exists>fl. properties c = Some fl \<and> length fl = 5)"
proof -
  let ?c0 = "\<lparr> visible = visible base,
             worldAlpha = worldAlpha base,
             renderable = renderable base,
             children = children base,
             properties = Some [False, True, False, False, False],
             maxSize = or_default m 15000,
             batchSize = min (min (or_default b 15000) 16384) (or_default m 15000),
             glBuffers = [],
             bufferToUpdate = 0,
             interactiveChildren = False,
             blendMode = NORMAL,
             roundPixels = True,
             baseTexture = None,
             buffers = None \<rparr>"
  have eq: "ParticleContainer base m p b = setProperties ?c0 p"
    by (simp add: ParticleContainer_def Let_def min_def)
  have "properties ?c0 = Some [False, True, False, False, False]" by simp
  from setProperties_defined[OF this, of p]
  obtain fl' where "setProperties ?c0 p = Inr (?c0\<lparr>properties := Some fl'\<rparr>)" "length fl' = 5"
    by auto
  then show ?thesis by (simp add: eq)
qed

text \<open>
  The constructor never stores a batch size of zero, so the division of
  \<open>onChildrenChange\<close> is defined on every container it builds.
\<close>

lemma ParticleContainer_batchSize_nonzero:
  "ParticleContainer base m p b = Inr c \<Longrightarrow> batchSize c \<noteq> 0"
  using ParticleContainer_fields[of base m p b]
  by (auto simp: or_default_def min_def split: option.splits if_splits)

text \<open>
  Claim C1, as the code has it.  A constructor call with \<open>batchSize > 16384\<close> returns a
  container, and the batch size it stores is the smaller of 16384 and the stored
  \<open>maxSize\<close> (the argument, or 15000 when it is left out or zero): the ceiling of 16384 is
  applied first and the clamp to \<open>maxSize\<close> after it.  So the stored batch size is 16384
  exactly when \<open>maxSize\<close> is at least 16384.
\<close>

theorem batchSize_over_ceiling:
  assumes "b > 16384"
  shows "\<exists>c. ParticleContainer base m p (Some b) = Inr c
           \<and> maxSize c = or_default m 15000
           \<and> batchSize c = min 16384 (maxSize c)"
  using assms ParticleContainer_fields[of base m p "Some b"]
  by (auto simp: or_default_def)

theorem batchSize_over_ceiling_witness:
  "(20000::int) > 16384 \<and>
   (\<exists>c. ParticleContainer fresh_display (Some 30000) None (Some 20000) = Inr c
           \<and> maxSize c = or_default (Some 30000) 15000
           \<and> batchSize c = min 16384 (maxSize c))"
proof -
  have h: "(20000::int) > 16384" by simp
  show ?thesis using h batchSize_over_ceiling [OF h, of fresh_display "Some 30000" None] by simp
qed

text \<open>
  Claim C1 as stated fails under the default \<open>maxSize\<close>: with \<open>maxSize\<close> left out and
  \<open>batchSize = 20000\<close> the stored batch size is 15000, not 16384.
\<close>

theorem batchSize_default_maxSize_counterexample:
  "ParticleContainer fresh_display None None (Some 20000) =
     Inr \<lparr> visible = True, worldAlpha = 1, renderable = True, children = [],
           properties = Some [False, True, False, False, False],
           maxSize = 15000,
           batchSize = 15000,
           glBuffers = [],
           bufferToUpdate = 0,
           interactiveChildren = False,
           blendMode = NORMAL,
           roundPixels = True,
           baseTexture = None,
           buffers = None \<rparr>"
  by (simp add: ParticleContainer_def setProperties_def or_default_def fresh_display_def)

text \<open>
  Claim C3, as the code has it.  A constructor call with a nonzero \<open>maxSize\<close> and
  \<open>batchSize > maxSize\<close> returns a container whose stored batch size is the smaller of
  \<open>maxSize\<close> and 16384; it equals \<open>maxSize\<close> whenever \<open>maxSize\<close> is at most 16384.
  The witness is the scenario \<open>maxSize = 10\<close>, \<open>batchSize = 20\<close>, which stores 10.
\<close>

theorem batchSize_over_maxSize:
  assumes "b > m" and "m \<noteq> 0"
  shows "\<exists>c. ParticleContainer base (Some m) p (Some b) = Inr c
           \<and> maxSize c = m
           \<and> batchSize c = min m 16384
           \<and> (m \<le> 16384 \<longrightarrow> batchSize c = m)"
  using assms ParticleContainer_fields[of base "Some m" p "Some b"]
  by (auto simp: or_default_def)

theorem batchSize_over_maxSize_witness:
  "(20::int) > 10 \<and> (10::int) \<noteq> 0 \<and> (10::int) \<le> 16384 \<and>
   (\<exists>c. ParticleContainer fresh_display (Some 10) None (Some 20) = Inr c
           \<and> maxSize c = 10 \<and> batchSize c = 10)"
proof -
  have h: "(20::int) > 10" and h': "(10::int) \<noteq> 0" by simp_all
  show ?thesis using batchSize_over_maxSize [OF h h', of fresh_display None] by simp
qed

text \<open>
  Claim C3 as stated fails when \<open>maxSize\<close> is above the ceiling: with
  \<open>maxSize = 20000\<close> and \<open>batchSize = 30000\<close> the stored batch size is 16384, not 20000.
\<close>

theorem batchSize_large_maxSize_counterexample:
  "ParticleContainer fresh_display (Some 20000) None (Some 30000) =
     Inr \<lparr> visible = True, worldAlpha = 1, renderable = True, children = [],
           properties = Some [False, True, False, False, False],
           maxSize = 20000,
           batchSize = 16384,
           glBuffers = [],
           bufferToUpdate = 0,
           interactiveChildren = False,
           blendMode = NORMAL,
           roundPixels = True,
           baseTexture = None,
           buffers = None \<rparr>"
  by (simp add: ParticleContainer_def setProperties_def or_default_def fresh_display_def)

section \<open>Dirty tracking\<close>

text \<open>
  Claim C4.  On a container whose batch size is not zero (every container the constructor
  builds), \<open>onChildrenChange k\<close> changes only the dirty floor \<open>_bufferToUpdate\<close>, and the
  new floor is the minimum of the old one and \<open>floor(k / batchSize)\<close>; so it never goes up,
  and for \<open>k1 < k2\<close> the call with \<open>k2\<close> followed by the call with \<open>k1\<close> leaves it at
  most \<open>floor(k1 / batchSize)\<close>.
\<close>

theorem onChildrenChange_lowers_floor:
  assumes "batchSize c \<noteq> 0"
  shows "onChildrenChange c k = c\<lparr>bufferToUpdate := min (bufferToUpdate c) (int k div batchSize c)\<rparr>
       \<and> bufferToUpdate (onChildrenChange c k) \<le> bufferToUpdate c
       \<and> (k1 < k2 \<longrightarrow>
            bufferToUpdate (onChildrenChange (onChildrenChange c k2) k1) \<le> int k1 div batchSize c)"
  using assms by (simp add: onChildrenChange_def Let_def min_def)

theorem onChildrenChange_lowers_floor_witness:
  "batchSize sample_container \<noteq> 0
   \<and> bufferToUpdate (onChildrenChange sample_container 950) = 7
   \<and> bufferToUpdate (onChildrenChange sample_container 250) = 2
   \<and> (250 < (950::nat))
   \<and> bufferToUpdate (onChildrenChange (onChildrenChange sample_container 950) 250) \<le> 2"
proof -
  have h: "batchSize sample_container \<noteq> 0" by (simp add: sample_container_def)
  show ?thesis
    using h onChildrenChange_lowers_floor [OF h, of 950 250 950]
      onChildrenChange_lowers_floor [OF h, of 250 250 950]
    by (simp add: sample_container_def)
qed

section \<open>Property flags\<close>

text \<open>
  Claim C7.  On a container that has not been destroyed (its five flags are present),
  \<open>setProperties\<close> with an object argument returns normally and changes nothing but the
  flag array; every flag whose key is absent from the argument keeps its value; and for the
  argument \<open>{scale: true}\<close> the new array is the old one with the scale flag set, so the
  position, rotation, uvs and alpha flags are the prior ones.
\<close>

theorem setProperties_frame:
  assumes "properties c = Some fl" and "length fl = 5"
  shows "\<exists>fl'. setProperties c (Some p) = Inr (c\<lparr>properties := Some fl'\<rparr>) \<and> length fl' = 5
           \<and> (p ''scale'' = None \<longrightarrow> fl' ! 0 = fl ! 0)
           \<and> (p ''position'' = None \<longrightarrow> fl' ! 1 = fl ! 1)
           \<and> (p ''rotation'' = None \<longrightarrow> fl' ! 2 = fl ! 2)
           \<and> (p ''uvs'' = None \<longrightarrow> fl' ! 3 = fl ! 3)
           \<and> (p ''alpha'' = None \<longrightarrow> fl' ! 4 = fl ! 4)
           \<and> (p = [''scale'' \<mapsto> JBool True] \<longrightarrow> fl' = fl[0 := True])"
proof -
  let ?fl' = "fl[0 := flag_of p ''scale'' (fl ! 0),
                 1 := flag_of p ''position'' (fl ! 1),
                 2 := flag_of p ''rotation'' (fl ! 2),
                 3 := flag_of p ''uvs'' (fl ! 3),
                 4 := flag_of p ''alpha'' (fl ! 4)]"
  have r: "setProperties c (Some p) = Inr (c\<lparr>properties := Some ?fl'\<rparr>)"
    using assms by (simp add: setProperties_def Let_def)
  have keep: "xs[i := a, j := xs ! j] = xs[i := a]" if "i \<noteq> j" for xs :: "bool list" and i j a
    using that by (metis list_update_id list_update_swap)
  have "?fl' = fl[0 := True]" if "p = [''scale'' \<mapsto> JBool True]"
  proof -
    have "flag_of p ''scale'' (fl ! 0) = True" "flag_of p ''position'' (fl ! 1) = fl ! 1"
      "flag_of p ''rotation'' (fl ! 2) = fl ! 2" "flag_of p ''uvs'' (fl ! 3) = fl ! 3"
      "flag_of p ''alpha'' (fl ! 4) = fl ! 4"
      unfolding that flag_of_def by simp_all
    then show ?thesis by (simp only: keep)
  qed
  with r assms show ?thesis
    by (intro exI[of _ ?fl']) (simp add: flag_of_def)
qed

theorem setProperties_frame_witness:
  "properties sample_container = Some [False, True, False, False, False]
   \<and> setProperties sample_container (Some [''scale'' \<mapsto> JBool True]) =
       Inr (sample_container\<lparr>properties := Some [True, True, False, False, False]\<rparr>)"
proof -
  have h: "properties sample_container = Some [False, True, False, False, False]"
    and h': "length [False, True, False, False, False] = 5"
    by (simp_all add: sample_container_def)
  show ?thesis
    using h setProperties_frame [OF h h', of "[''scale'' \<mapsto> JBool True]"]
    by auto
qed

section \<open>destroy\<close>

text \<open>
  \<open>destroy\<close> calls \<open>destroy()\<close> on the entries of \<open>_buffers\<close> and on nothing else, and
  it never reads or writes \<open>_glBuffers\<close>.
\<close>

lemma destroy_releases_buffers:
  "snd (destroy super_destroy c released) =
     released @ (case buffers (super_destroy c) of None \<Rightarrow> [] | Some bs \<Rightarrow> bs)"
proof -
  have "fold (\<lambda>b log. log @ [b]) bs rel = rel @ bs" for bs rel :: "nat list"
    by (induction bs arbitrary: rel) auto
  then show ?thesis by (simp add: destroy_def Let_def split: option.splits)
qed

lemma destroy_reads_buffers_only:
  assumes "buffers (super_destroy c) = None"
  shows "destroy super_destroy c released =
           ((super_destroy c)\<lparr>properties := None\<rparr>, released)"
  using assms by (simp add: destroy_def Let_def)

text \<open>
  Claim C2 fails on the code.  The constructor keeps the buffer groups in \<open>_glBuffers\<close>,
  but \<open>destroy\<close> loops over \<open>_buffers\<close>, which the class never assigns.  On a container
  whose \<open>_glBuffers\<close> holds the groups 3 and 4, \<open>destroy\<close> calls \<open>destroy()\<close> on no
  group and leaves \<open>_glBuffers\<close> as it was; only the flag array is set to \<open>null\<close>.
\<close>

theorem destroy_leaves_glBuffers:
  "destroy id (sample_container\<lparr>glBuffers := [3, 4]\<rparr>) [] =
     (sample_container\<lparr>glBuffers := [3, 4], properties := None\<rparr>, [])"
  by (simp add: destroy_def sample_container_def)

section \<open>The first WebGL render\<close>

text \<open>
  Claim C9.  On a visible, renderable, non-empty container with positive world alpha and no
  image source captured yet, \<open>renderWebGL\<close> returns (the function has no failing branch),
  stores the first child's image source in \<open>baseTexture\<close> and makes the two renderer
  calls.  If that source has loaded, no listener is registered.  If it has not, exactly one
  one-shot \<open>update\<close> listener is appended; running it is \<open>onChildrenChange(0)\<close>; and when
  the source then emits \<open>update\<close> (no other listener pending, batch size not zero) the
  dirty floor becomes the minimum of its old value and 0, which is 0 for a floor that was
  not negative, and the listener is gone.
\<close>

theorem renderWebGL_first_render:
  assumes "the_container s = c"
    and "visible c" and "worldAlpha c > 0" and "children c \<noteq> []" and "renderable c"
    and "baseTexture c = None"
    and "b = texture_baseTexture (children c ! 0)"
  shows "baseTexture (the_container (renderWebGL s)) = Some b
       \<and> renderer_calls (renderWebGL s) =
           renderer_calls s @ [SetObjectRenderer_particle, Particle_render]
       \<and> (hasLoaded (baseTextures s b) \<longrightarrow> baseTextures (renderWebGL s) = baseTextures s)
       \<and> (\<not> hasLoaded (baseTextures s b) \<longrightarrow>
            once_update (baseTextures (renderWebGL s) b) =
              once_update (baseTextures s b) @ [CallOnChildrenChange 0]
          \<and> the_container (run_callback (CallOnChildrenChange 0) (renderWebGL s)) =
              onChildrenChange (c\<lparr>baseTexture := Some b\<rparr>) 0
          \<and> (batchSize c \<noteq> 0 \<and> once_update (baseTextures s b) = [] \<longrightarrow>
                bufferToUpdate (the_container (emit_update (renderWebGL s) b)) =
                  min (bufferToUpdate c) 0
              \<and> (0 \<le> bufferToUpdate c \<longrightarrow>
                  bufferToUpdate (the_container (emit_update (renderWebGL s) b)) = 0)
              \<and> once_update (baseTextures (emit_update (renderWebGL s) b) b) = []))"
  using assms
  by (auto simp: renderWebGL_def Let_def once_def emit_update_def onChildrenChange_def)

theorem renderWebGL_first_render_witness:
  "visible (the_container sample_scene) \<and> worldAlpha (the_container sample_scene) > 0
   \<and> children (the_container sample_scene) = [\<lparr>texture_baseTexture = 5\<rparr>]
   \<and> renderable (the_container sample_scene)
   \<and> baseTexture (the_container sample_scene) = None
   \<and> \<not> hasLoaded (baseTextures sample_scene 5)
   \<and> bufferToUpdate (the_container sample_scene) = 7
   \<and> baseTexture (the_container (renderWebGL sample_scene)) = Some 5
   \<and> renderer_calls (renderWebGL sample_scene) = [SetObjectRenderer_particle, Particle_render]
   \<and> once_update (baseTextures (renderWebGL sample_scene) 5) = [CallOnChildrenChange 0]
   \<and> bufferToUpdate (the_container (emit_update (renderWebGL sample_scene) 5)) = 0
   \<and> once_update (baseTextures (emit_update (renderWebGL sample_scene) 5) 5) = []"
proof -
  let ?c = "the_container sample_scene"
  have h: "the_container sample_scene = ?c" "visible ?c" "worldAlpha ?c > 0" "children ?c \<noteq> []"
    "renderable ?c" "baseTexture ?c = None" "5 = texture_baseTexture (children ?c ! 0)"
    by (simp_all add: sample_scene_def sample_container_def)
  have more: "children ?c = [\<lparr>texture_baseTexture = 5\<rparr>]" "\<not> hasLoaded (baseTextures sample_scene 5)"
    "bufferToUpdate ?c = 7" "batchSize ?c \<noteq> 0" "once_update (baseTextures sample_scene 5) = []"
    "renderer_calls sample_scene = []"
    by (simp_all add: sample_scene_def sample_container_def)
  show ?thesis
    using h(2,3,5,6) more renderWebGL_first_render [OF h]
    by simp
qed

section \<open>Rounding\<close>

lemma round_half_even_int [simp]: "round_half_even (of_int z) = z"
  by (simp add: round_half_even_def)

lemma floor_log2_less:
  assumes "x \<noteq> 0" and "\<bar>x\<bar> < 2 powi k"
  shows "\<lfloor>log 2 \<bar>x\<bar>\<rfloor> < k"
proof -
  have pos: "0 < \<bar>x\<bar>" using assms(1) by simp
  have "2 powi k = (2::real) powr (of_int k)"
    by (simp add: powr_real_of_int')
  then have "log 2 \<bar>x\<bar> < of_int k"
    using assms(2) pos by (simp add: log_less_iff)
  then show ?thesis by (simp add: floor_less_iff)
qed

lemma round_to_exact:
  assumes x: "x = of_int n * 2 powi j"
    and n: "\<bar>n\<bar> < 2 ^ p"
    and j: "2 - emax - int p \<le> j"
    and top: "int p + j \<le> emax + 1"
  shows "round_to p emax x = Num x"
proof (cases "x = 0")
  case True
  then show ?thesis by (simp add: round_to_def)
next
  case False
  define e where "e = max \<lfloor>log 2 \<bar>x\<bar>\<rfloor> (1 - emax)"
  define u :: real where "u = 2 powi (e - int p + 1)"
  have "\<bar>x\<bar> = of_int \<bar>n\<bar> * 2 powi j"
    unfolding x by (simp add: abs_mult)
  also have "\<dots> < 2 ^ p * 2 powi j"
  proof -
    have "(of_int \<bar>n\<bar> :: real) < of_int (2 ^ p)" using n by (simp only: of_int_less_iff)
    then show ?thesis by simp
  qed
  also have "\<dots> = 2 powi (int p + j)"
    by (simp add: power_int_add)
  finally have lt: "\<bar>x\<bar> < 2 powi (int p + j)" .
  have "(2::real) powi (int p + j) \<le> 2 powi (emax + 1)"
    using top by (intro power_int_increasing) simp_all
  then have big: "\<bar>x\<bar> < 2 powi (emax + 1)" using lt by linarith
  have "\<lfloor>log 2 \<bar>x\<bar>\<rfloor> < int p + j"
    using floor_log2_less[OF False lt] .
  then have k: "0 \<le> j - (e - int p + 1)"
    using j by (simp add: e_def)
  define k where "k = nat (j - (e - int p + 1))"
  have "x / u = of_int n * (2 powi j / 2 powi (e - int p + 1))"
    by (simp add: x u_def)
  also have "2 powi j / 2 powi (e - int p + 1) = (2::real) powi (j - (e - int p + 1))"
    by (simp add: power_int_diff)
  also have "\<dots> = 2 ^ k"
    using k by (simp add: k_def power_int_nonneg_exp)
  finally have q: "x / u = of_int (n * 2 ^ k)" by simp
  have upos: "u \<noteq> 0" by (simp add: u_def)
  have "of_int (round_half_even (x / u)) * u = x"
    unfolding q round_half_even_int using q upos by (simp add: field_simps)
  then show ?thesis
    using False big by (simp add: round_to_def Let_def e_def[symmetric] u_def[symmetric])
qed


lemma round64_zero [simp]: "round64 0 = Num 0"
  by (simp add: round64_def round_to_def)

lemma round32_zero [simp]: "round32 0 = Num 0"
  by (simp add: round32_def round_to_def)

lemma round64_half_int:
  assumes "\<bar>n\<bar> < 2 ^ 53"
  shows "round64 (of_int n / 2) = Num (of_int n / 2)"
proof -
  have x: "of_int n / 2 = (of_int n :: real) * 2 powi (- 1)" by simp
  have j: "2 - 1023 - int 53 \<le> - 1" and top: "int 53 + - 1 \<le> 1023 + 1" by simp_all
  show ?thesis
    unfolding round64_def by (rule round_to_exact[OF x assms j top])
qed

lemma round64_int:
  assumes "\<bar>n\<bar> < 2 ^ 52"
  shows "round64 (of_int n) = Num (of_int n)"
  using round64_half_int[of "2 * n"] assms by simp

lemma round32_half_int:
  assumes "\<bar>n\<bar> < 2 ^ 24"
  shows "round32 (of_int n / 2) = Num (of_int n / 2)"
proof -
  have x: "of_int n / 2 = (of_int n :: real) * 2 powi (- 1)" by simp
  have j: "2 - 127 - int 24 \<le> - 1" and top: "int 24 + - 1 \<le> 127 + 1" by simp_all
  show ?thesis
    unfolding round32_def by (rule round_to_exact[OF x assms j top])
qed

lemma round32_int:
  assumes "\<bar>n\<bar> < 2 ^ 23"
  shows "round32 (of_int n) = Num (of_int n)"
  using round32_half_int[of "2 * n"] assms by simp

lemma round32_one [simp]: "round32 1 = Num 1"
  using round32_int[of 1] by simp

lemma js_add_NaN_right [simp]: "js_add a NaN = NaN"
  by (cases a) simp_all

lemma js_sub_NaN_right [simp]: "js_sub a NaN = NaN"
  by (simp add: js_sub_def)

section \<open>The perpendicular\<close>

lemma scaled_perp_degenerate: "scaled_perp h q q = (NaN, NaN)"
proof -
  have sub: "js_sub a a = Num 0 \<or> js_sub a a = NaN" for a
    by (cases a) (simp_all add: js_sub_def)
  define X where "X = js_sub (py q) (py q)"
  define Y where "Y = js_neg (js_sub (px q) (px q))"
  have X: "X = Num 0 \<or> X = NaN" using sub[of "py q"] by (simp add: X_def)
  have Y: "Y = Num 0 \<or> Y = NaN" using sub[of "px q"] by (auto simp: Y_def)
  define L where "L = js_sqrt (js_add (js_mul X X) (js_mul Y Y))"
  have L: "L = Num 0 \<or> L = NaN" using X Y by (auto simp: L_def)
  have "js_div X L = NaN" "js_div Y L = NaN" using X Y L by auto
  then show ?thesis
    by (simp add: scaled_perp_def Let_def X_def[symmetric] Y_def[symmetric] L_def[symmetric])
qed

lemma cross_section_NaN: "cross_section p (NaN, NaN) = [NaN, NaN, NaN, NaN]"
  by (simp add: cross_section_def)



section \<open>List updates of a loop iteration\<close>

lemma quad_update_nth:
  assumes "i * 4 + 3 < length xs"
  shows "xs[i * 4 := a, i * 4 + 1 := b, i * 4 + 2 := c, i * 4 + 3 := d] ! (i * 4) = a"
    and "xs[i * 4 := a, i * 4 + 1 := b, i * 4 + 2 := c, i * 4 + 3 := d] ! (i * 4 + 1) = b"
    and "xs[i * 4 := a, i * 4 + 1 := b, i * 4 + 2 := c, i * 4 + 3 := d] ! (i * 4 + 2) = c"
    and "xs[i * 4 := a, i * 4 + 1 := b, i * 4 + 2 := c, i * 4 + 3 := d] ! (i * 4 + 3) = d"
  using assms by (simp_all add: nth_list_update)

lemma quad_update_below:
  assumes "k < i * 4"
  shows "xs[i * 4 := a, i * 4 + 1 := b, i * 4 + 2 := c, i * 4 + 3 := d] ! k = xs ! k"
  using assms by (simp add: nth_list_update)

lemma pair_update_nth:
  assumes "i * 2 + 1 < length xs"
  shows "xs[i * 2 := a, i * 2 + 1 := b] ! (i * 2) = a"
    and "xs[i * 2 := a, i * 2 + 1 := b] ! (i * 2 + 1) = b"
  using assms by (simp_all add: nth_list_update)

lemma pair_update_below:
  assumes "k < i * 2"
  shows "xs[i * 2 := a, i * 2 + 1 := b] ! k = xs ! k"
  using assms by (simp add: nth_list_update)

section \<open>The loop of refresh\<close>

lemma refresh_body_eq:
  "refresh_body offset factor n i (u, c, ix) =
     (u[i * 4 := uv_along offset factor n i, i * 4 + 1 := uv_edge0 offset,
        i * 4 + 2 := uv_along offset factor n i, i * 4 + 3 := uv_edge1 offset factor],
      c[i * 2 := Num 1, i * 2 + 1 := Num 1],
      ix[i * 2 := of_nat (i * 2), i * 2 + 1 := of_nat (i * 2 + 1)])"
  by (simp add: refresh_body_def Let_def uv_along_def uv_edge0_def uv_edge1_def)

lemma refresh_loop_length:
  "refresh_loop offset factor n i (u, c, ix) = (u', c', ix') \<Longrightarrow>
     length u' = length u \<and> length c' = length c \<and> length ix' = length ix"
proof (induction offset factor n i "(u, c, ix)" arbitrary: u c ix rule: refresh_loop.induct)
  case (1 offset factor n i)
  show ?case
  proof (cases "i < n")
    case True
    then show ?thesis
      using "1.hyps"[OF True refresh_body_eq] "1.prems"
      by (simp add: refresh_body_eq refresh_loop.simps[of offset factor n i "(u, c, ix)"])
  next
    case False
    then show ?thesis
      using "1.prems" by (simp add: refresh_loop.simps[of offset factor n i "(u, c, ix)"])
  qed
qed

lemma refresh_loop_below:
  assumes "refresh_loop offset factor n i (u, c, ix) = (u', c', ix')"
  shows "(k < i * 4 \<longrightarrow> u' ! k = u ! k) \<and> (k < i * 2 \<longrightarrow> c' ! k = c ! k \<and> ix' ! k = ix ! k)"
  using assms
proof (induction offset factor n i "(u, c, ix)" arbitrary: u c ix rule: refresh_loop.induct)
  case (1 offset factor n i)
  show ?case
  proof (cases "i < n")
    case True
    have step: "refresh_loop offset factor n (Suc i)
        (u[i * 4 := uv_along offset factor n i, i * 4 + 1 := uv_edge0 offset,
           i * 4 + 2 := uv_along offset factor n i, i * 4 + 3 := uv_edge1 offset factor],
         c[i * 2 := Num 1, i * 2 + 1 := Num 1],
         ix[i * 2 := of_nat (i * 2), i * 2 + 1 := of_nat (i * 2 + 1)]) = (u', c', ix')"
      using "1.prems" True
      by (simp add: refresh_body_eq refresh_loop.simps[of offset factor n i "(u, c, ix)"])
    from "1.hyps"[OF True refresh_body_eq step]
    show ?thesis by (auto simp: quad_update_below pair_update_below)
  next
    case False
    then show ?thesis
      using "1.prems" by (simp add: refresh_loop.simps[of offset factor n i "(u, c, ix)"])
  qed
qed

lemma refresh_loop_written:
  assumes "refresh_loop offset factor n i (u, c, ix) = (u', c', ix')"
    and "i \<le> j" and "j < n"
    and "j * 4 + 3 < length u" and "j * 2 + 1 < length c" and "j * 2 + 1 < length ix"
  shows "u' ! (j * 4) = uv_along offset factor n j \<and> u' ! (j * 4 + 1) = uv_edge0 offset
       \<and> u' ! (j * 4 + 2) = uv_along offset factor n j
       \<and> u' ! (j * 4 + 3) = uv_edge1 offset factor
       \<and> c' ! (j * 2) = Num 1 \<and> c' ! (j * 2 + 1) = Num 1
       \<and> ix' ! (j * 2) = of_nat (j * 2) \<and> ix' ! (j * 2 + 1) = of_nat (j * 2 + 1)"
  using assms
proof (induction offset factor n i "(u, c, ix)" arbitrary: u c ix rule: refresh_loop.induct)
  case (1 offset factor n i)
  have lt: "i < n" using "1.prems" by simp
  let ?u = "u[i * 4 := uv_along offset factor n i, i * 4 + 1 := uv_edge0 offset,
           i * 4 + 2 := uv_along offset factor n i, i * 4 + 3 := uv_edge1 offset factor]"
  let ?c = "c[i * 2 := Num 1, i * 2 + 1 := Num 1]"
  let ?ix = "ix[i * 2 := of_nat (i * 2), i * 2 + 1 := of_nat (i * 2 + 1)]"
  have step: "refresh_loop offset factor n (Suc i) (?u, ?c, ?ix) = (u', c', ix')"
    using "1.prems"(1) lt
    by (simp add: refresh_body_eq refresh_loop.simps[of offset factor n i "(u, c, ix)"])
  show ?case
  proof (cases "j = i")
    case True
    have below: "k < Suc i * 4 \<longrightarrow> u' ! k = ?u ! k"
      "k < Suc i * 2 \<longrightarrow> c' ! k = ?c ! k \<and> ix' ! k = ?ix ! k" for k
      using refresh_loop_below[OF step, of k] by blast+
    have "u' ! (i * 4) = ?u ! (i * 4)" "u' ! (i * 4 + 1) = ?u ! (i * 4 + 1)"
      "u' ! (i * 4 + 2) = ?u ! (i * 4 + 2)" "u' ! (i * 4 + 3) = ?u ! (i * 4 + 3)"
      "c' ! (i * 2) = ?c ! (i * 2)" "c' ! (i * 2 + 1) = ?c ! (i * 2 + 1)"
      "ix' ! (i * 2) = ?ix ! (i * 2)" "ix' ! (i * 2 + 1) = ?ix ! (i * 2 + 1)"
      using below by simp_all
    then show ?thesis
      using "1.prems" True by (simp add: quad_update_nth pair_update_nth)
  next
    case False
    then have "Suc i \<le> j" using "1.prems" by simp
    then show ?thesis
      using "1.hyps"[OF lt refresh_body_eq step _ "1.prems"(3)] "1.prems" by simp
  qed
qed

lemma refresh_unfold:
  assumes "tex_uvs (texture r) = Some t" and "points r \<noteq> []"
  shows "refresh r =
     (case refresh_loop (uv_offset t) (uv_factor t) (length (points r)) 1
             ((uvs r)[0 := to_float32 (js_add (Num 0) (uv_x0 t)), 1 := uv_edge0 (uv_offset t),
                      2 := to_float32 (js_add (Num 0) (uv_x0 t)),
                      3 := uv_edge1 (uv_offset t) (uv_factor t)],
              (colors r)[0 := Num 1, 1 := Num 1],
              (indices r)[0 := 0, 1 := 1]) of
        (u, c, ix) \<Rightarrow> r\<lparr>uvs := u, colors := c, indices := ix, dirty := True, indexDirty := True\<rparr>)"
  using assms
  by (simp add: refresh_def Let_def uv_offset_def uv_factor_def uv_edge0_def uv_edge1_def)

lemma refresh_keeps:
  "points (refresh r) = points r \<and> vertices (refresh r) = vertices r
   \<and> texture (refresh r) = texture r \<and> ready (refresh r) = ready r
   \<and> length (uvs (refresh r)) = length (uvs r)
   \<and> length (colors (refresh r)) = length (colors r)
   \<and> length (indices (refresh r)) = length (indices r)"
proof (cases "tex_uvs (texture r)")
  case None
  then show ?thesis by (simp add: refresh_def)
next
  case (Some t)
  show ?thesis
  proof (cases "points r = []")
    case True
    then show ?thesis using Some by (simp add: refresh_def)
  next
    case False
    obtain u c ix where
      loop: "refresh_loop (uv_offset t) (uv_factor t) (length (points r)) 1
             ((uvs r)[0 := to_float32 (js_add (Num 0) (uv_x0 t)), 1 := uv_edge0 (uv_offset t),
                      2 := to_float32 (js_add (Num 0) (uv_x0 t)),
                      3 := uv_edge1 (uv_offset t) (uv_factor t)],
              (colors r)[0 := Num 1, 1 := Num 1],
              (indices r)[0 := 0, 1 := 1]) = (u, c, ix)"
      using prod_cases3 by blast
    from refresh_loop_length[OF loop] refresh_unfold[OF Some False] loop
    show ?thesis by simp
  qed
qed

lemma Rope_fields:
  "points (Rope base pts) = pts
   \<and> vertices (Rope base pts) = replicate (length pts * 4) (Num 0)
   \<and> texture (Rope base pts) = texture base
   \<and> length (uvs (Rope base pts)) = length pts * 4
   \<and> length (colors (Rope base pts)) = length pts * 2
   \<and> length (indices (Rope base pts)) = length pts * 2"
proof -
  let ?r0 = "\<lparr> texture = texture base, dirty = dirty base, indexDirty = indexDirty base,
         points = pts,
         vertices = replicate (length pts * 4) (Num 0),
         uvs = replicate (length pts * 4) (Num 0),
         colors = replicate (length pts * 2) (Num 0),
         indices = replicate (length pts * 2) 0,
         ready = True \<rparr>"
  have "Rope base pts = refresh ?r0" by (simp add: Rope_def)
  then show ?thesis using refresh_keeps[of ?r0] by simp
qed

lemma sample_rope_fields:
  "points sample_rope = sample_points"
  "texture sample_rope = sample_texture"
  "length (vertices sample_rope) = 12" "length (uvs sample_rope) = 12"
  "length (colors sample_rope) = 6" "length (indices sample_rope) = 6"
  using Rope_fields[of "fresh_mesh sample_texture" sample_points]
  by (simp_all add: sample_rope_def sample_points_def fresh_mesh_def)

lemma refresh_entries:
  assumes uv: "tex_uvs (texture r) = Some t"
    and i: "i < length (points r)"
    and lu: "length (uvs r) = 4 * length (points r)"
    and lc: "length (colors r) = 2 * length (points r)"
    and li: "length (indices r) = 2 * length (points r)"
  shows "uvs (refresh r) ! (i * 4) =
           (if i = 0 then to_float32 (js_add (Num 0) (uv_x0 t))
            else uv_along (uv_offset t) (uv_factor t) (length (points r)) i)
       \<and> uvs (refresh r) ! (i * 4 + 2) = uvs (refresh r) ! (i * 4)
       \<and> uvs (refresh r) ! (i * 4 + 1) = uv_edge0 (uv_offset t)
       \<and> uvs (refresh r) ! (i * 4 + 3) = uv_edge1 (uv_offset t) (uv_factor t)
       \<and> colors (refresh r) ! (i * 2) = Num 1 \<and> colors (refresh r) ! (i * 2 + 1) = Num 1
       \<and> indices (refresh r) ! (i * 2) = of_nat (i * 2)
       \<and> indices (refresh r) ! (i * 2 + 1) = of_nat (i * 2 + 1)
       \<and> dirty (refresh r) \<and> indexDirty (refresh r)"
proof -
  let ?off = "uv_offset t"
  let ?fac = "uv_factor t"
  let ?u0 = "(uvs r)[0 := to_float32 (js_add (Num 0) (uv_x0 t)), 1 := uv_edge0 ?off,
                      2 := to_float32 (js_add (Num 0) (uv_x0 t)), 3 := uv_edge1 ?off ?fac]"
  let ?c0 = "(colors r)[0 := Num 1, 1 := Num 1]"
  let ?i0 = "(indices r)[0 := 0, 1 := 1]"
  have ne: "points r \<noteq> []" using i by auto
  obtain u c ix where
    loop: "refresh_loop ?off ?fac (length (points r)) 1 (?u0, ?c0, ?i0) = (u, c, ix)"
    using prod_cases3 by blast
  have res: "refresh r = r\<lparr>uvs := u, colors := c, indices := ix, dirty := True, indexDirty := True\<rparr>"
    using refresh_unfold[OF uv ne] loop by simp
  show ?thesis
  proof (cases "i = 0")
    case True
    have len: "3 < length (uvs r)" "1 < length (colors r)" "1 < length (indices r)"
      "uvs r \<noteq> []" "colors r \<noteq> []" "indices r \<noteq> []"
      using i lu lc li by auto
    have bu: "u ! k = ?u0 ! k" if "k < 4" for k
      using refresh_loop_below[OF loop, of k] that by simp
    have bc: "c ! k = ?c0 ! k \<and> ix ! k = ?i0 ! k" if "k < 2" for k
      using refresh_loop_below[OF loop, of k] that by simp
    have u0: "?u0 ! 0 = to_float32 (js_add (Num 0) (uv_x0 t))" "?u0 ! 1 = uv_edge0 ?off"
      "?u0 ! 2 = to_float32 (js_add (Num 0) (uv_x0 t))" "?u0 ! 3 = uv_edge1 ?off ?fac"
      using len by (simp_all add: nth_list_update)
    have c0: "?c0 ! 0 = Num 1" "?c0 ! 1 = Num 1" "?i0 ! 0 = 0" "?i0 ! 1 = 1"
      using len by (simp_all add: nth_list_update)
    have "uvs (refresh r) ! (i * 4) = to_float32 (js_add (Num 0) (uv_x0 t))"
      "uvs (refresh r) ! (i * 4 + 1) = uv_edge0 ?off"
      "uvs (refresh r) ! (i * 4 + 2) = to_float32 (js_add (Num 0) (uv_x0 t))"
      "uvs (refresh r) ! (i * 4 + 3) = uv_edge1 ?off ?fac"
      unfolding True res using bu[of 0] bu[of 1] bu[of 2] bu[of 3] u0
      by (simp_all del: list_update.simps add: numeral_2_eq_2 numeral_3_eq_3)
    moreover have "colors (refresh r) ! (i * 2) = Num 1"
      "colors (refresh r) ! (i * 2 + 1) = Num 1"
      "indices (refresh r) ! (i * 2) = of_nat (i * 2)"
      "indices (refresh r) ! (i * 2 + 1) = of_nat (i * 2 + 1)"
      unfolding True res using bc[of 0] bc[of 1] c0 by simp_all
    moreover have "dirty (refresh r)" "indexDirty (refresh r)" using res by simp_all
    ultimately show ?thesis using True by (simp only: if_True simp_thms)
  next
    case False
    then have "1 \<le> i" by simp
    moreover have "i * 4 + 3 < length ?u0" "i * 2 + 1 < length ?c0" "i * 2 + 1 < length ?i0"
      using i lu lc li by simp_all
    ultimately have w: "u ! (i * 4) = uv_along ?off ?fac (length (points r)) i
       \<and> u ! (i * 4 + 1) = uv_edge0 ?off
       \<and> u ! (i * 4 + 2) = uv_along ?off ?fac (length (points r)) i
       \<and> u ! (i * 4 + 3) = uv_edge1 ?off ?fac
       \<and> c ! (i * 2) = Num 1 \<and> c ! (i * 2 + 1) = Num 1
       \<and> ix ! (i * 2) = of_nat (i * 2) \<and> ix ! (i * 2 + 1) = of_nat (i * 2 + 1)"
      using refresh_loop_written[OF loop _ i] by blast
    then show ?thesis using False res by simp
  qed
qed

text \<open>
  Claim C5, as the code has it.  For a rope with \<open>N \<ge> 1\<close> points, a resolved UV
  rectangle and buffers of the sizes the constructor allocates for these points, \<open>refresh\<close>
  leaves \<open>4N\<close> uv scalars, \<open>2N\<close> colour scalars and \<open>2N\<close> indices, and for every
  \<open>i < N\<close>: \<open>uvs[4i] = uvs[4i+2]\<close> is \<open>0 + offsetX\<close> for \<open>i = 0\<close> and
  \<open>(i/(N-1)) * scaleX + offsetX\<close> for \<open>i \<ge> 1\<close>; \<open>uvs[4i+1]\<close> is \<open>0 + offsetY\<close>;
  \<open>uvs[4i+3]\<close> is \<open>1 * scaleY + offsetY\<close>; each of these is computed with the binary64
  operations and rounded to binary32 by the store; both colour scalars are 1; and the two
  indices are \<open>2i\<close> and \<open>2i+1\<close> modulo \<open>65536\<close>, the index buffer holding unsigned
  16-bit entries, which are \<open>2i\<close> and \<open>2i+1\<close> themselves whenever \<open>N \<le> 32768\<close>.  Here
  \<open>offset = (x0, y0)\<close> and \<open>scale = (x2 - x0, y2 - y0)\<close> of the UV rectangle, the
  differences taken in binary64.
\<close>

theorem refresh_static_buffers:
  assumes "tex_uvs (texture r) = Some t"
    and "1 \<le> length (points r)"
    and "length (uvs r) = 4 * length (points r)"
    and "length (colors r) = 2 * length (points r)"
    and "length (indices r) = 2 * length (points r)"
  shows "length (uvs (refresh r)) = 4 * length (points r)
       \<and> length (colors (refresh r)) = 2 * length (points r)
       \<and> length (indices (refresh r)) = 2 * length (points r)
       \<and> (\<forall>i < length (points r).
            uvs (refresh r) ! (4 * i) =
              to_float32
                (if i = 0 then js_add (Num 0) (uv_x0 t)
                 else js_add
                        (js_mul (js_div (Num (real i)) (Num (real (length (points r)) - 1)))
                           (js_sub (uv_x2 t) (uv_x0 t)))
                        (uv_x0 t))
          \<and> uvs (refresh r) ! (4 * i + 2) = uvs (refresh r) ! (4 * i)
          \<and> uvs (refresh r) ! (4 * i + 1) = to_float32 (js_add (Num 0) (uv_y0 t))
          \<and> uvs (refresh r) ! (4 * i + 3) =
              to_float32 (js_add (js_mul (Num 1) (js_sub (uv_y2 t) (uv_y0 t))) (uv_y0 t))
          \<and> colors (refresh r) ! (2 * i) = Num 1
          \<and> colors (refresh r) ! (2 * i + 1) = Num 1
          \<and> unat (indices (refresh r) ! (2 * i)) = (2 * i) mod 65536
          \<and> unat (indices (refresh r) ! (2 * i + 1)) = (2 * i + 1) mod 65536
          \<and> (length (points r) \<le> 32768 \<longrightarrow>
                unat (indices (refresh r) ! (2 * i)) = 2 * i
              \<and> unat (indices (refresh r) ! (2 * i + 1)) = 2 * i + 1))"
proof -
  have sizes: "length (uvs (refresh r)) = 4 * length (points r)"
    "length (colors (refresh r)) = 2 * length (points r)"
    "length (indices (refresh r)) = 2 * length (points r)"
    using refresh_keeps[of r] assms by simp_all
  have entries: "uvs (refresh r) ! (4 * i) =
              to_float32
                (if i = 0 then js_add (Num 0) (uv_x0 t)
                 else js_add
                        (js_mul (js_div (Num (real i)) (Num (real (length (points r)) - 1)))
                           (js_sub (uv_x2 t) (uv_x0 t)))
                        (uv_x0 t))
          \<and> uvs (refresh r) ! (4 * i + 2) = uvs (refresh r) ! (4 * i)
          \<and> uvs (refresh r) ! (4 * i + 1) = to_float32 (js_add (Num 0) (uv_y0 t))
          \<and> uvs (refresh r) ! (4 * i + 3) =
              to_float32 (js_add (js_mul (Num 1) (js_sub (uv_y2 t) (uv_y0 t))) (uv_y0 t))
          \<and> colors (refresh r) ! (2 * i) = Num 1
          \<and> colors (refresh r) ! (2 * i + 1) = Num 1
          \<and> unat (indices (refresh r) ! (2 * i)) = (2 * i) mod 65536
          \<and> unat (indices (refresh r) ! (2 * i + 1)) = (2 * i + 1) mod 65536
          \<and> (length (points r) \<le> 32768 \<longrightarrow>
                unat (indices (refresh r) ! (2 * i)) = 2 * i
              \<and> unat (indices (refresh r) ! (2 * i + 1)) = 2 * i + 1)"
    if i: "i < length (points r)" for i
  proof -
    note e = refresh_entries[OF assms(1) i assms(3-5)]
    have c4: "4 * i = i * 4" and c2: "2 * i = i * 2" by simp_all
    have u16: "unat (of_nat k :: 16 word) = k mod 65536" for k
      by (simp add: unat_of_nat)
    from e have x0: "indices (refresh r) ! (i * 2) = of_nat (i * 2)"
      and x1: "indices (refresh r) ! (i * 2 + 1) = of_nat (i * 2 + 1)"
      by blast+
    have m0: "unat (indices (refresh r) ! (i * 2)) = (i * 2) mod 65536"
      unfolding x0 by (rule u16)
    have m1: "unat (indices (refresh r) ! (i * 2 + 1)) = (i * 2 + 1) mod 65536"
      unfolding x1 by (rule u16)
    from e have u: "uvs (refresh r) ! (i * 4) =
           (if i = 0 then to_float32 (js_add (Num 0) (uv_x0 t))
            else uv_along (uv_offset t) (uv_factor t) (length (points r)) i)"
      "uvs (refresh r) ! (i * 4 + 2) = uvs (refresh r) ! (i * 4)"
      "uvs (refresh r) ! (i * 4 + 1) = uv_edge0 (uv_offset t)"
      "uvs (refresh r) ! (i * 4 + 3) = uv_edge1 (uv_offset t) (uv_factor t)"
      "colors (refresh r) ! (i * 2) = Num 1"
      "colors (refresh r) ! (i * 2 + 1) = Num 1"
      by blast+
    have small: "(i * 2) mod 65536 = i * 2" "(i * 2 + 1) mod 65536 = i * 2 + 1"
      if "length (points r) \<le> 32768"
      using that i by simp_all
    have first: "uvs (refresh r) ! (i * 4) =
              to_float32
                (if i = 0 then js_add (Num 0) (uv_x0 t)
                 else js_add
                        (js_mul (js_div (Num (real i)) (Num (real (length (points r)) - 1)))
                           (js_sub (uv_x2 t) (uv_x0 t)))
                        (uv_x0 t))"
      unfolding u(1) by (simp add: uv_along_def uv_offset_def uv_factor_def)
    have edges: "uvs (refresh r) ! (i * 4 + 1) = to_float32 (js_add (Num 0) (uv_y0 t))"
      "uvs (refresh r) ! (i * 4 + 3) =
              to_float32 (js_add (js_mul (Num 1) (js_sub (uv_y2 t) (uv_y0 t))) (uv_y0 t))"
      unfolding u(3,4) by (simp_all add: uv_edge0_def uv_edge1_def uv_offset_def uv_factor_def)
    show ?thesis
      unfolding c4 c2 using first edges u(2,5,6) m0 m1 small
      by (simp only: simp_thms) blast
  qed
  show ?thesis
    apply (intro conjI)
       apply (rule sizes)+
    apply (intro allI impI)
    apply (erule entries)
    done
qed

section \<open>The loop of updateTransform\<close>

lemma body_verts:
  "verts (updateTransform_body h pts n i v) =
     (let cs = cross_section (pts ! i) (scaled_perp h (lastPoint v) (nextPoint_at pts i))
      in (verts v)[i * 4 := cs ! 0, i * 4 + 1 := cs ! 1, i * 4 + 2 := cs ! 2, i * 4 + 3 := cs ! 3])"
  by (simp add: updateTransform_body_def Let_def cross_section_def scaled_perp_def
      nextPoint_at_def)

lemma body_lastPoint: "lastPoint (updateTransform_body h pts n i v) = pts ! i"
  by (simp add: updateTransform_body_def Let_def)

lemma body_length: "length (verts (updateTransform_body h pts n i v)) = length (verts v)"
  by (simp add: body_verts Let_def)

lemma loop_length:
  "length (verts (updateTransform_loop h pts n i v)) = length (verts v)"
proof (induction h pts n i v rule: updateTransform_loop.induct)
  case (1 h pts n i v)
  show ?case
  proof (cases "i < n")
    case True
    then show ?thesis
      using 1 by (simp add: body_length updateTransform_loop.simps[of h pts n i v])
  next
    case False
    then show ?thesis by (simp add: updateTransform_loop.simps[of h pts n i v])
  qed
qed

lemma loop_below:
  "k < i * 4 \<Longrightarrow> verts (updateTransform_loop h pts n i v) ! k = verts v ! k"
proof (induction h pts n i v rule: updateTransform_loop.induct)
  case (1 h pts n i v)
  show ?case
  proof (cases "i < n")
    case True
    have "verts (updateTransform_loop h pts n i v) ! k =
          verts (updateTransform_loop h pts n (Suc i) (updateTransform_body h pts n i v)) ! k"
      using True by (simp add: updateTransform_loop.simps[of h pts n i v])
    also have "\<dots> = verts (updateTransform_body h pts n i v) ! k"
      using 1 True by simp
    also have "\<dots> = verts v ! k"
      using "1.prems" by (simp add: body_verts Let_def quad_update_below)
    finally show ?thesis .
  next
    case False
    then show ?thesis by (simp add: updateTransform_loop.simps[of h pts n i v])
  qed
qed

lemma loop_written:
  assumes "i \<le> j" and "j < n" and "j * 4 + 3 < length (verts v)" and "t < 4"
  shows "verts (updateTransform_loop h pts n i v) ! (j * 4 + t) =
           cross_section (pts ! j)
             (scaled_perp h (if j = i then lastPoint v else pts ! (j - 1)) (nextPoint_at pts j)) ! t"
  using assms
proof (induction h pts n i v rule: updateTransform_loop.induct)
  case (1 h pts n i v)
  have lt: "i < n" using "1.prems" by simp
  have unfold: "updateTransform_loop h pts n i v =
      updateTransform_loop h pts n (Suc i) (updateTransform_body h pts n i v)"
    using lt by (simp add: updateTransform_loop.simps[of h pts n i v])
  show ?case
  proof (cases "j = i")
    case True
    have "verts (updateTransform_loop h pts n i v) ! (j * 4 + t) =
          verts (updateTransform_body h pts n i v) ! (j * 4 + t)"
      unfolding unfold using True "1.prems" by (intro loop_below) simp
    also have "\<dots> = cross_section (pts ! j) (scaled_perp h (lastPoint v) (nextPoint_at pts j)) ! t"
    proof -
      have "t = 0 \<or> t = 1 \<or> t = 2 \<or> t = 3" using "1.prems" by auto
      then show ?thesis
        using "1.prems"(3) True
        by (auto simp: body_verts Let_def quad_update_nth)
    qed
    finally show ?thesis using True by simp
  next
    case False
    then have "Suc i \<le> j" using "1.prems" by simp
    moreover have "j * 4 + 3 < length (verts (updateTransform_body h pts n i v))"
      using "1.prems" by (simp add: body_length)
    ultimately have "verts (updateTransform_loop h pts n (Suc i) (updateTransform_body h pts n i v)) ! (j * 4 + t) =
      cross_section (pts ! j)
        (scaled_perp h (if j = Suc i then lastPoint (updateTransform_body h pts n i v) else pts ! (j - 1))
           (nextPoint_at pts j)) ! t"
      using "1.IH"[OF lt] "1.prems" by simp
    then show ?thesis
      unfolding unfold using False by (auto simp: body_lastPoint)
  qed
qed

lemma updateTransform_length:
  "length (vertices (updateTransform r)) = length (vertices r)"
  by (simp add: updateTransform_def Let_def loop_length)

lemma updateTransform_entry:
  assumes "i < length (points r)" and "length (vertices r) = 4 * length (points r)" and "t < 4"
  shows "vertices (updateTransform r) ! (i * 4 + t) =
           cross_section (points r ! i)
             (scaled_perp (height (texture r)) (points r ! (i - 1)) (nextPoint_at (points r) i)) ! t"
proof -
  let ?v0 = "\<lparr> lastPoint = points r ! 0, perpX = Num 0, perpY = Num 0, ratio = NaN,
                verts = vertices r \<rparr>"
  have ne: "points r \<noteq> []" using assms(1) by auto
  have "vertices (updateTransform r) =
      verts (updateTransform_loop (height (texture r)) (points r) (length (points r)) 0 ?v0)"
    using ne by (simp add: updateTransform_def Let_def)
  moreover have "i * 4 + 3 < length (verts ?v0)" using assms by simp
  ultimately have "vertices (updateTransform r) ! (i * 4 + t) =
      cross_section (points r ! i)
        (scaled_perp (height (texture r)) (if i = 0 then lastPoint ?v0 else points r ! (i - 1))
           (nextPoint_at (points r) i)) ! t"
    using loop_written[of 0 i "length (points r)" ?v0 t "height (texture r)" "points r"] assms
    by simp
  then show ?thesis by (cases "i = 0") simp_all
qed

section \<open>The taper ratio\<close>

lemma plain_body_forget:
  "plain_body h pts i (forget_ratio v) = forget_ratio (updateTransform_body h pts n i v)"
  by (simp add: plain_body_def updateTransform_body_def forget_ratio_def Let_def)

lemma plain_loop_forget:
  "plain_loop h pts n i (forget_ratio v) = forget_ratio (updateTransform_loop h pts n i v)"
proof (induction h pts n i v rule: updateTransform_loop.induct)
  case (1 h pts n i v)
  show ?case
  proof (cases "i < n")
    case True
    have "plain_loop h pts n i (forget_ratio v) =
          plain_loop h pts n (Suc i) (plain_body h pts i (forget_ratio v))"
      using True by (simp add: plain_loop.simps[of h pts n i "forget_ratio v"])
    also have "\<dots> = plain_loop h pts n (Suc i) (forget_ratio (updateTransform_body h pts n i v))"
      by (simp only: plain_body_forget[of h pts i v n])
    also have "\<dots> = forget_ratio (updateTransform_loop h pts n (Suc i) (updateTransform_body h pts n i v))"
      using "1.IH"[OF True] .
    also have "\<dots> = forget_ratio (updateTransform_loop h pts n i v)"
      using True by (simp add: updateTransform_loop.simps[of h pts n i v])
    finally show ?thesis .
  next
    case False
    then show ?thesis
      by (simp add: plain_loop.simps[of h pts n i "forget_ratio v"]
          updateTransform_loop.simps[of h pts n i v])
  qed
qed

text \<open>
  Claim C8.  For every rope, \<open>updateTransform\<close> gives the same rope, and so the same
  vertex buffer, as the derivation with the taper ratio taken out.
\<close>

theorem updateTransform_ignores_ratio:
  "updateTransform r = updateTransform_without_ratio r"
proof (cases "length (points r) < 1")
  case True
  then show ?thesis by (simp add: updateTransform_def updateTransform_without_ratio_def)
next
  case False
  let ?v0 = "\<lparr> lastPoint = points r ! 0, perpX = Num 0, perpY = Num 0, ratio = NaN,
                verts = vertices r \<rparr>"
  have "forget_ratio ?v0 = \<lparr> plain_lastPoint = points r ! 0, plain_perpX = Num 0,
      plain_perpY = Num 0, plain_verts = vertices r \<rparr>"
    by (simp add: forget_ratio_def)
  then have "plain_verts (plain_loop (height (texture r)) (points r) (length (points r)) 0
       \<lparr> plain_lastPoint = points r ! 0, plain_perpX = Num 0,
         plain_perpY = Num 0, plain_verts = vertices r \<rparr>) =
     verts (updateTransform_loop (height (texture r)) (points r) (length (points r)) 0 ?v0)"
    using plain_loop_forget[of "height (texture r)" "points r" "length (points r)" 0 ?v0]
    by (simp add: forget_ratio_def)
  then show ?thesis
    using False by (simp add: updateTransform_def updateTransform_without_ratio_def Let_def)
qed

section \<open>The vertices of updateTransform\<close>


lemma normalisation_degenerate:
  "js_div (js_sub (py q) (py q))
     (js_sqrt (js_add (js_mul (js_sub (py q) (py q)) (js_sub (py q) (py q)))
        (js_mul (js_neg (js_sub (px q) (px q))) (js_neg (js_sub (px q) (px q)))))) = NaN
   \<and> js_div (js_neg (js_sub (px q) (px q)))
     (js_sqrt (js_add (js_mul (js_sub (py q) (py q)) (js_sub (py q) (py q)))
        (js_mul (js_neg (js_sub (px q) (px q))) (js_neg (js_sub (px q) (px q)))))) = NaN"
proof -
  have sub: "js_sub a a = Num 0 \<or> js_sub a a = NaN" for a
    by (cases a) (simp_all add: js_sub_def)
  define X where "X = js_sub (py q) (py q)"
  define Y where "Y = js_neg (js_sub (px q) (px q))"
  have X: "X = Num 0 \<or> X = NaN" using sub[of "py q"] by (simp add: X_def)
  have Y: "Y = Num 0 \<or> Y = NaN" using sub[of "px q"] by (auto simp: Y_def)
  define L where "L = js_sqrt (js_add (js_mul X X) (js_mul Y Y))"
  have L: "L = Num 0 \<or> L = NaN" using X Y by (auto simp: L_def)
  have "js_div X L = NaN" "js_div Y L = NaN" using X Y L by auto
  then show ?thesis
    by (simp add: X_def[symmetric] Y_def[symmetric] L_def[symmetric])
qed


text \<open>
  Claim C10.  \<open>updateTransform\<close> divides the perpendicular by its length without a check
  for zero.  Wherever \<open>lastPoint\<close> and \<open>nextPoint\<close> coincide at an index \<open>i\<close> the
  length is zero (or \<open>NaN\<close>), the division yields \<open>NaN\<close>, and the four scalars written
  for point \<open>i\<close> are \<open>NaN\<close>; for a rope of a single point this is the whole vertex
  buffer.  The normalisation of the perpendicular between two coinciding points \<open>q\<close> is
  \<open>NaN\<close>.
\<close>

theorem updateTransform_zero_length_perpendicular:
  assumes "length (vertices r) = 4 * length (points r)"
  shows "(\<forall>i < length (points r).
            points r ! (i - 1) = (if i + 1 < length (points r) then points r ! (i + 1) else points r ! i)
            \<longrightarrow> vertices (updateTransform r) ! (4 * i) = NaN
              \<and> vertices (updateTransform r) ! (4 * i + 1) = NaN
              \<and> vertices (updateTransform r) ! (4 * i + 2) = NaN
              \<and> vertices (updateTransform r) ! (4 * i + 3) = NaN)
       \<and> (length (points r) = 1 \<longrightarrow> vertices (updateTransform r) = [NaN, NaN, NaN, NaN])
       \<and> js_div (js_sub (py q) (py q))
            (js_sqrt (js_add (js_mul (js_sub (py q) (py q)) (js_sub (py q) (py q)))
               (js_mul (js_neg (js_sub (px q) (px q))) (js_neg (js_sub (px q) (px q)))))) = NaN"
proof -
  let ?pts = "points r"
  let ?V = "vertices (updateTransform r)"
  have degenerate: "?V ! (4 * i) = NaN \<and> ?V ! (4 * i + 1) = NaN
      \<and> ?V ! (4 * i + 2) = NaN \<and> ?V ! (4 * i + 3) = NaN"
    if i: "i < length ?pts"
      and same: "?pts ! (i - 1) = (if i + 1 < length ?pts then ?pts ! (i + 1) else ?pts ! i)"
    for i
  proof -
    have "nextPoint_at ?pts i = ?pts ! (i - 1)"
      using same by (auto simp: nextPoint_at_def)
    then have perp: "scaled_perp (height (texture r)) (?pts ! (i - 1)) (nextPoint_at ?pts i)
        = (NaN, NaN)"
      by (simp add: scaled_perp_degenerate)
    have c4: "4 * i = i * 4" by simp
    show ?thesis
      unfolding c4
      using updateTransform_entry[OF i assms, of 0] updateTransform_entry[OF i assms, of 1]
        updateTransform_entry[OF i assms, of 2] updateTransform_entry[OF i assms, of 3]
      unfolding perp cross_section_NaN by simp
  qed
  have single: "?V = [NaN, NaN, NaN, NaN]" if one: "length ?pts = 1"
  proof -
    have "length ?V = 4" using assms one by (simp add: updateTransform_length)
    moreover have "?V ! (4 * 0) = NaN \<and> ?V ! (4 * 0 + 1) = NaN
      \<and> ?V ! (4 * 0 + 2) = NaN \<and> ?V ! (4 * 0 + 3) = NaN"
      using degenerate[of 0] one by simp
    ultimately show ?thesis
      by (auto simp: list_eq_iff_nth_eq less_Suc_eq numeral_eq_Suc)
  qed
  show ?thesis
    apply (intro conjI)
      apply (intro allI impI)
      apply (erule (1) degenerate)
     apply (intro impI)
     apply (erule single)
    apply (rule normalisation_degenerate[THEN conjunct1])
    done
qed

section \<open>Concrete ropes\<close>

lemma round64_one [simp]: "round64 1 = Num 1"
  using round64_int[of 1] by simp

lemma round64_half [simp]: "round64 (1 / 2) = Num (1 / 2)"
  using round64_half_int[of 1] by simp

lemma round32_half [simp]: "round32 (1 / 2) = Num (1 / 2)"
  using round32_half_int[of 1] by simp

theorem refresh_static_buffers_witness:
  "tex_uvs (texture sample_rope) =
     Some \<lparr>uv_x0 = Num 0, uv_y0 = Num 0, uv_x2 = Num 1, uv_y2 = Num 1\<rparr>
   \<and> 1 \<le> length (points sample_rope)
   \<and> length (uvs sample_rope) = 4 * length (points sample_rope)
   \<and> length (colors sample_rope) = 2 * length (points sample_rope)
   \<and> length (indices sample_rope) = 2 * length (points sample_rope)
   \<and> length (uvs (refresh sample_rope)) = 12
   \<and> uvs (refresh sample_rope) ! 0 = Num 0
   \<and> uvs (refresh sample_rope) ! 4 = Num (1 / 2)
   \<and> uvs (refresh sample_rope) ! 8 = Num 1
   \<and> uvs (refresh sample_rope) ! 11 = Num 1
   \<and> colors (refresh sample_rope) ! 5 = Num 1
   \<and> unat (indices (refresh sample_rope) ! 4) = 4
   \<and> unat (indices (refresh sample_rope) ! 5) = 5"
proof -
  have h1: "tex_uvs (texture sample_rope) =
      Some \<lparr>uv_x0 = Num 0, uv_y0 = Num 0, uv_x2 = Num 1, uv_y2 = Num 1\<rparr>"
    by (simp add: sample_rope_fields sample_texture_def)
  have h2: "1 \<le> length (points sample_rope)"
    and h3: "length (uvs sample_rope) = 4 * length (points sample_rope)"
    and h4: "length (colors sample_rope) = 2 * length (points sample_rope)"
    and h5: "length (indices sample_rope) = 2 * length (points sample_rope)"
    by (simp_all add: sample_rope_fields sample_points_def)
  have n: "length (points sample_rope) = 3"
    by (simp add: sample_rope_fields sample_points_def)
  note t = refresh_static_buffers [OF h1 h2 h3 h4 h5]
  from t have a: "length (uvs (refresh sample_rope)) = 12" using n by simp
  note per = t[THEN conjunct2, THEN conjunct2, THEN conjunct2, THEN spec, THEN mp]
  have i0: "0 < length (points sample_rope)" and i1: "1 < length (points sample_rope)"
    and i2: "2 < length (points sample_rope)"
    using n by simp_all
  have b: "uvs (refresh sample_rope) ! 0 = Num 0"
    "uvs (refresh sample_rope) ! 4 = Num (1 / 2)"
    "uvs (refresh sample_rope) ! 8 = Num 1"
    "uvs (refresh sample_rope) ! 11 = Num 1"
    "colors (refresh sample_rope) ! 5 = Num 1"
    "unat (indices (refresh sample_rope) ! 4) = 4"
    "unat (indices (refresh sample_rope) ! 5) = 5"
    using per[OF i0] per[OF i1] per[OF i2] n by (simp_all add: js_sub_def)
  show ?thesis using h1 h2 h3 h4 h5 a b by simp
qed

text \<open>
  Claim C5 as stated fails on a rope of 32769 points: the index stored at position
  \<open>2 * 32768\<close> is 0, not 65536.
\<close>

theorem refresh_index_wraps_counterexample:
  "unat (indices (refresh long_rope) ! (2 * 32768)) = 0"
proof -
  let ?pts = "replicate 32769 \<lparr>px = Num 0, py = Num 0\<rparr>"
  note f = Rope_fields[of "fresh_mesh sample_texture" ?pts]
  have n: "length (points long_rope) = 32769"
    using f by (simp add: long_rope_def)
  have "indices (refresh long_rope) ! (32768 * 2) = of_nat (32768 * 2)"
    using refresh_entries[of long_rope
        "\<lparr>uv_x0 = Num 0, uv_y0 = Num 0, uv_x2 = Num 1, uv_y2 = Num 1\<rparr>" 32768] f
    by (simp add: long_rope_def fresh_mesh_def sample_texture_def)
  then show ?thesis by simp
qed



theorem updateTransform_zero_length_perpendicular_witness:
  "length (vertices single_point_rope) = 4 * length (points single_point_rope)
   \<and> length (points single_point_rope) = 1
   \<and> vertices (updateTransform single_point_rope) = [NaN, NaN, NaN, NaN]"
proof -
  note f = Rope_fields[of "fresh_mesh sample_texture" "[\<lparr>px = Num 3, py = Num 4\<rparr>]"]
  have h: "length (vertices single_point_rope) = 4 * length (points single_point_rope)"
    and one: "length (points single_point_rope) = 1"
    using f by (simp_all add: single_point_rope_def)
  show ?thesis
    using h one updateTransform_zero_length_perpendicular [OF h, of "\<lparr>px = Num 3, py = Num 4\<rparr>"]
    by simp
qed

end
